theory Spec2Isabelle
  imports Main
begin

section \<open>Values, errors and outcomes\<close>

text \<open>
  The program is Python 2: a \<open>str\<close> is a sequence of 8-bit characters, which is what
  \<^typ>\<open>string\<close> is in HOL. Packet fields are dynamically typed, so they hold a
  \<open>pyval\<close>: \<open>None\<close>, a process-information structure, a byte string or an integer.
\<close>

record ProcInfo =
  pid :: int
  epid :: int

datatype pyval = PyNone | PyProc ProcInfo | PyStr string | PyInt int

text \<open>
  Python's truth test, as \<open>not v\<close> uses it: \<open>None\<close>, the empty string and \<open>0\<close> are
  false; a structure instance is true.
\<close>

fun truthy :: "pyval \<Rightarrow> bool" where
  "truthy PyNone = False"
| "truthy (PyProc _) = True"
| "truthy (PyStr s) = (s \<noteq> [])"
| "truthy (PyInt i) = (i \<noteq> 0)"

text \<open>
  \<open>TypeError n m\<close> is the foreign-call layer's refusal of a call with \<open>m\<close> arguments to
  a function declared with \<open>n\<close> parameters; \<open>ArgumentError i\<close> is its refusal to convert
  the \<open>i\<close>-th argument to the declared parameter type.
\<close>

datatype error =
    RuntimeError string
  | KeyError string
  | Empty
  | TypeError nat nat
  | ArgumentError nat

text \<open>
  What a call does: it returns a value, raises, or (a blocking dequeue on an empty queue
  with no producer running) stays suspended.
\<close>

datatype 'a outcome = Returned 'a | Raised error | Blocked

section \<open>Packet\<close>

record Packet =
  proc :: pyval
  ip_data :: pyval
  sockaddr :: pyval
  valid :: bool
  flag :: pyval

definition Packet_init :: Packet where
  "Packet_init = \<lparr>proc = PyNone, ip_data = PyNone, sockaddr = PyNone,
                   valid = False, flag = PyInt 0\<rparr>"

definition setitem :: "Packet \<Rightarrow> string \<Rightarrow> pyval \<Rightarrow> error + Packet" where
  "setitem p key v =
     (if key = ''proc'' then Inr (p\<lparr>proc := v\<rparr>)
      else if key = ''ip_data'' then Inr (p\<lparr>ip_data := v\<rparr>)
      else if key = ''sockaddr'' then Inr (p\<lparr>sockaddr := v\<rparr>)
      else if key = ''flag'' then Inr (p\<lparr>flag := v\<rparr>)
      else Inl (KeyError (''No suck key: '' @ key)))"

definition getitem :: "Packet \<Rightarrow> string \<Rightarrow> pyval" where
  "getitem p item =
     (if item = ''proc'' then proc p
      else if item = ''ip_data'' then ip_data p
      else if item = ''sockaddr'' then sockaddr p
      else if item = ''flag'' then flag p
      else PyNone)"

definition known_keys :: "string list" where
  "known_keys = [''proc'', ''ip_data'', ''sockaddr'', ''flag'']"

section \<open>External collaborators\<close>

text \<open>
  The native engine, the constants of \<open>Defaults\<close> and the header accessors of
  \<open>IpHeader\<close> live outside this module. They are parameters of the model: what each
  engine operation reports is a field of \<open>externals\<close>. Memory behind a C pointer is a
  function from offsets to bytes, and slicing a pointer reads exactly the requested
  bytes.
\<close>

type_synonym buffer = "nat \<Rightarrow> char"

definition ptr_slice :: "buffer \<Rightarrow> int \<Rightarrow> string" where
  "ptr_slice b n = map b [0..<nat n]"

text \<open>A character array of \<open>n\<close> cells, and its \<open>value\<close>: the cells before the first NUL.\<close>

definition array_cells :: "buffer \<Rightarrow> nat \<Rightarrow> string" where
  "array_cells b n = map b [0..<n]"

definition c_value :: "string \<Rightarrow> string" where
  "c_value cells = takeWhile (\<lambda>c. c \<noteq> CHR 0x00) cells"

record externals =
  SOCKET_ADDR_SIZE :: nat
  IPFW_RULE_SIZE :: nat
  DIVERT_ERRBUF_SIZE :: nat
  get_header_length :: "buffer \<Rightarrow> int"
  get_total_length :: "buffer \<Rightarrow> int"
  handle_errmsg :: string
  lib_divert_activate :: int
  lib_divert_update_ipfw :: "string \<Rightarrow> int"
  lib_divert_reinject :: "pyval \<Rightarrow> int \<Rightarrow> pyval \<Rightarrow> int"
  lib_divert_close :: int
  lib_ipfw_compile_rule :: "int \<Rightarrow> string \<Rightarrow> int \<times> buffer \<times> buffer"

text \<open>
  The foreign-call boundary. \<open>MacDivert\<close> binds every engine function to the parameter
  types of its table \<open>divert_argtypes\<close>. A call with fewer arguments than declared
  parameters is refused before the engine runs; otherwise the arguments are converted
  in order, and the first one its parameter type does not accept is refused. A
  \<open>c_char_p\<close> parameter accepts \<open>None\<close>, a string and a character buffer; an integer
  parameter accepts an integer; a handle pointer parameter accepts the handle. The two
  check is written out at the two calls where it decides the result: the reinjection,
  whose arguments come from the caller's Packet, and the rule compilation. Every other
  call of the model passes the handle, an integer or a string, as many as the table
  declares and of the declared types.
\<close>

datatype ctype = POINTER_DivertHandleRaw | c_char_p | c_ushort | c_ssize_t

datatype cvalue = HandlePtr | StringBuffer nat | Py pyval

fun from_param :: "ctype \<Rightarrow> cvalue \<Rightarrow> bool" where
  "from_param c_char_p (Py PyNone) = True"
| "from_param c_char_p (Py (PyStr _)) = True"
| "from_param c_char_p (StringBuffer _) = True"
| "from_param c_ushort (Py (PyInt _)) = True"
| "from_param c_ssize_t (Py (PyInt _)) = True"
| "from_param POINTER_DivertHandleRaw HandlePtr = True"
| "from_param POINTER_DivertHandleRaw (Py PyNone) = True"
| "from_param _ _ = False"

fun convert_args :: "ctype list \<Rightarrow> cvalue list \<Rightarrow> nat \<Rightarrow> error option" where
  "convert_args (t # ts) (a # as) i =
     (if from_param t a then convert_args ts as (Suc i) else Some (ArgumentError i))"
| "convert_args _ _ i = None"

definition foreign_call :: "ctype list \<Rightarrow> cvalue list \<Rightarrow> error option" where
  "foreign_call argtypes args =
     (if length args < length argtypes
      then Some (TypeError (length argtypes) (length args))
      else convert_args argtypes args 1)"

text \<open>The two entries of \<open>divert_argtypes\<close> that the model uses.\<close>

definition argtypes_divert_reinject :: "ctype list" where
  "argtypes_divert_reinject = [POINTER_DivertHandleRaw, c_char_p, c_ssize_t, c_char_p]"

definition argtypes_ipfw_compile_rule :: "ctype list" where
  "argtypes_ipfw_compile_rule = [c_char_p, c_ushort, c_ushort, c_char_p, c_char_p]"

text \<open>What the engine hands to the capture callback.\<close>

record raw_packet =
  proc_info :: ProcInfo
  ip_buf :: buffer
  sock_buf :: buffer

section \<open>DivertHandle\<close>

datatype Thread = Thread (isAlive: bool)

text \<open>
  Every effect on the engine, the background thread and the queue is appended to
  \<open>events\<close>, so that the order of effects can be stated.
\<close>

datatype event =
    E_divert_create int int
  | E_divert_set_callback
  | E_divert_activate
  | E_divert_update_ipfw string
  | E_thread_start int
  | E_divert_loop_stop
  | E_thread_join
  | E_divert_reinject pyval int pyval
  | E_divert_close
  | E_queue_put Packet

record DivertHandle =
  port :: int
  count :: int
  filter_str :: string
  flags :: int
  packet_queue :: "Packet list"
  num_queued :: int
  cleaned :: bool
  thread :: "Thread option"
  events :: "event list"

definition log_event :: "DivertHandle \<Rightarrow> event \<Rightarrow> DivertHandle" where
  "log_event h e = h\<lparr>events := events h @ [e]\<rparr>"

definition queue_put :: "DivertHandle \<Rightarrow> Packet \<Rightarrow> DivertHandle" where
  "queue_put h p = (log_event h (E_queue_put p))\<lparr>packet_queue := packet_queue h @ [p]\<rparr>"

definition ip_callback :: "externals \<Rightarrow> DivertHandle \<Rightarrow> raw_packet \<Rightarrow> DivertHandle" where
  "ip_callback x h r =
     (let packet = Packet_init;
          header_len = get_header_length x (ip_buf r);
          packet_length = get_total_length x (ip_buf r)
      in if packet_length > 0 \<and> header_len > 0 then
           (let packet = packet\<lparr>valid := True\<rparr>;
                packet = (if pid (proc_info r) \<noteq> - 1 \<or> epid (proc_info r) \<noteq> - 1
                          then packet\<lparr>proc := PyProc (proc_info r)\<rparr> else packet);
                packet = packet\<lparr>ip_data := PyStr (ptr_slice (ip_buf r) packet_length)\<rparr>;
                packet = packet\<lparr>sockaddr :=
                           PyStr (ptr_slice (sock_buf r) (int (SOCKET_ADDR_SIZE x)))\<rparr>
            in queue_put h packet)
         else h)"

definition init ::
  "externals \<Rightarrow> int \<Rightarrow> string \<Rightarrow> int \<Rightarrow> int \<Rightarrow> error + DivertHandle" where
  "init x port0 filter0 flags0 count0 =
     (if lib_divert_activate x \<noteq> 0 then Inl (RuntimeError (handle_errmsg x))
      else Inr \<lparr>port = port0, count = count0, filter_str = filter0, flags = flags0,
                packet_queue = [], num_queued = 0, cleaned = False, thread = None,
                events = [E_divert_create port0 flags0, E_divert_set_callback,
                          E_divert_activate]\<rparr>)"

definition eof :: "DivertHandle \<Rightarrow> bool" where
  "eof h = (length (packet_queue h) = 0)"

text \<open>Reading \<open>closed\<close> forgets a thread that is no longer alive.\<close>

definition closed :: "DivertHandle \<Rightarrow> bool \<times> DivertHandle" where
  "closed h =
     (let h1 = (case thread h of
                  None \<Rightarrow> h
                | Some t \<Rightarrow> if isAlive t then h else h\<lparr>thread := None\<rparr>)
      in (thread h1 = None \<and> eof h1, h1))"

definition sentinel :: Packet where
  "sentinel = Packet_init\<lparr>valid := False\<rparr>"

fun put_sentinels :: "nat \<Rightarrow> DivertHandle \<Rightarrow> DivertHandle" where
  "put_sentinels 0 h = h"
| "put_sentinels (Suc n) h = put_sentinels n (queue_put h sentinel)"

definition close :: "DivertHandle \<Rightarrow> DivertHandle" where
  "close h =
     (let h1 = put_sentinels (nat (num_queued h)) h
      in case thread h1 of
           None \<Rightarrow> h1
         | Some t \<Rightarrow>
             (let h2 = (if isAlive t then log_event h1 E_divert_loop_stop else h1);
                  h3 = log_event h2 E_thread_join
              in h3\<lparr>thread := None\<rparr>))"

definition del :: "externals \<Rightarrow> DivertHandle \<Rightarrow> unit outcome \<times> DivertHandle" where
  "del x h =
     (let h1 = close h
      in if cleaned h1 then (Returned (), h1)
         else (let h2 = (log_event h1 E_divert_close)\<lparr>cleaned := True\<rparr>
               in if lib_divert_close x \<noteq> 0
                  then (Raised (RuntimeError (handle_errmsg x)), h2)
                  else (Returned (), h2)))"

definition set_filter ::
  "externals \<Rightarrow> DivertHandle \<Rightarrow> string \<Rightarrow> bool outcome \<times> DivertHandle" where
  "set_filter x h f =
     (if f \<noteq> [] then
        (let h1 = log_event h (E_divert_update_ipfw f)
         in if lib_divert_update_ipfw x f \<noteq> 0
            then (Raised (RuntimeError (''Error rule: '' @ handle_errmsg x)), h1)
            else (Returned True, h1))
      else (Returned False, h))"

definition handle_open :: "externals \<Rightarrow> DivertHandle \<Rightarrow> unit outcome \<times> DivertHandle" where
  "handle_open x h =
     (case (if filter_str h \<noteq> [] then set_filter x h (filter_str h)
            else (Returned False, h)) of
        (Raised e, h1) \<Rightarrow> (Raised e, h1)
      | (_, h1) \<Rightarrow>
          (Returned (),
           (log_event h1 (E_thread_start (count h1)))\<lparr>thread := Some (Thread True)\<rparr>))"

text \<open>
  \<open>read\<close> passes its arguments to the queue's \<open>get\<close>: a blocking get, a non-blocking
  get, or a blocking get with a timeout. No producer runs during a call of the model,
  so on an empty queue the first stays suspended and the other two raise \<open>Empty\<close>.
\<close>

datatype get_policy = Block | NonBlock | BlockTimeout

definition read :: "DivertHandle \<Rightarrow> get_policy \<Rightarrow> Packet outcome \<times> DivertHandle" where
  "read h pol =
     (let h1 = h\<lparr>num_queued := num_queued h + 1\<rparr>
      in case packet_queue h1 of
           [] \<Rightarrow> (if pol = Block then (Blocked, h1) else (Raised Empty, h1))
         | res # rest \<Rightarrow>
             (Returned res, h1\<lparr>packet_queue := rest, num_queued := num_queued h1 - 1\<rparr>))"

definition write_packet ::
  "externals \<Rightarrow> DivertHandle \<Rightarrow> Packet option \<Rightarrow> int outcome \<times> DivertHandle" where
  "write_packet x h packet_obj =
     (let (c, h1) = closed h
      in if c then (Raised (RuntimeError ''Divert handle closed.''), h1)
         else (case packet_obj of
                 None \<Rightarrow> (Raised (RuntimeError ''Invalid packet data.''), h1)
               | Some p \<Rightarrow>
                   if \<not> truthy (sockaddr p) \<or> \<not> truthy (ip_data p)
                   then (Raised (RuntimeError ''Invalid packet data.''), h1)
                   else (case foreign_call argtypes_divert_reinject
                                [HandlePtr, Py (ip_data p), Py (PyInt (- 1)), Py (sockaddr p)] of
                           Some e \<Rightarrow> (Raised e, h1)
                         | None \<Rightarrow>
                             (Returned (lib_divert_reinject x (ip_data p) (- 1) (sockaddr p)),
                              log_event h1
                                (E_divert_reinject (ip_data p) (- 1) (sockaddr p))))))"

definition ipfw_compile_rule :: "externals \<Rightarrow> string \<Rightarrow> int \<Rightarrow> error + string" where
  "ipfw_compile_rule x rule_str port0 =
     (case foreign_call argtypes_ipfw_compile_rule
             [StringBuffer (IPFW_RULE_SIZE x), Py (PyInt port0), Py (PyStr rule_str),
              StringBuffer (DIVERT_ERRBUF_SIZE x)] of
        Some e \<Rightarrow> Inl e
      | None \<Rightarrow>
          (case lib_ipfw_compile_rule x port0 rule_str of
             (status, rule_buf, err_buf) \<Rightarrow>
               (let errmsg = array_cells err_buf (DIVERT_ERRBUF_SIZE x);
                    rule_data = array_cells rule_buf (IPFW_RULE_SIZE x)
                in if status \<noteq> 0
                   then Inl (RuntimeError (''Error rule: '' @ c_value errmsg))
                   else Inr (take (IPFW_RULE_SIZE x) rule_data))))"

text \<open>Delivering a sequence of packets, and reading several times in a row.\<close>

definition deliver :: "externals \<Rightarrow> DivertHandle \<Rightarrow> raw_packet list \<Rightarrow> DivertHandle" where
  "deliver x h rs = foldl (ip_callback x) h rs"

fun read_n :: "nat \<Rightarrow> DivertHandle \<Rightarrow> Packet outcome list \<times> DivertHandle" where
  "read_n 0 h = ([], h)"
| "read_n (Suc n) h =
     (case read h Block of
        (Returned p, h1) \<Rightarrow> (case read_n n h1 of (os, h2) \<Rightarrow> (Returned p # os, h2))
      | (out, h1) \<Rightarrow> ([out], h1))"

definition payload_of :: "Packet outcome \<Rightarrow> pyval outcome" where
  "payload_of out = map_outcome ip_data out"

definition returned_valid :: "Packet outcome \<Rightarrow> bool" where
  "returned_valid out = (case out of Returned p \<Rightarrow> valid p | _ \<Rightarrow> False)"


definition payload_length :: "Packet \<Rightarrow> int option" where
  "payload_length p = (case ip_data p of PyStr s \<Rightarrow> Some (int (length s)) | _ \<Rightarrow> None)"

text \<open>Several reads in a row that find the queue empty and raise.\<close>

fun failed_reads :: "nat \<Rightarrow> get_policy \<Rightarrow> DivertHandle \<Rightarrow> DivertHandle" where
  "failed_reads 0 pol h = h"
| "failed_reads (Suc k) pol h = failed_reads k pol (snd (read h pol))"

section \<open>A concrete environment\<close>

text \<open>
  An instance of the parameters, used to run the model on concrete inputs: the header
  accessors read an IPv4 header (header length in the low nibble of byte 0, in 32-bit
  words; total length in bytes 2 and 3, big-endian), and the engine accepts every rule
  but \<open>bad\<close>.
\<close>

definition demo_externals :: externals where
  "demo_externals =
     \<lparr>SOCKET_ADDR_SIZE = 4, IPFW_RULE_SIZE = 6, DIVERT_ERRBUF_SIZE = 8,
      get_header_length = (\<lambda>b. int ((of_char (b 0) :: nat) mod 16) * 4),
      get_total_length = (\<lambda>b. int (of_char (b 2) :: nat) * 256 + int (of_char (b 3) :: nat)),
      handle_errmsg = ''engine failure'',
      lib_divert_activate = 0,
      lib_divert_update_ipfw = (\<lambda>f. 0),
      lib_divert_reinject = (\<lambda>d n a. case d of PyStr s \<Rightarrow> int (length s) | _ \<Rightarrow> - 1),
      lib_divert_close = 0,
      lib_ipfw_compile_rule =
        (\<lambda>p r. if r = ''bad''
                then (1, \<lambda>i. CHR 0x00, \<lambda>i. if i < 3 then CHR ''e'' else CHR 0x00)
                else (0, \<lambda>i. CHR ''r'', \<lambda>i. CHR 0x00))\<rparr>"

text \<open>
  A raw packet with header length 20 and total length 40, a marker in byte 4 and the
  given pid and epid.
\<close>

definition demo_raw :: "char \<Rightarrow> int \<Rightarrow> int \<Rightarrow> raw_packet" where
  "demo_raw marker p e =
     \<lparr>proc_info = \<lparr>pid = p, epid = e\<rparr>,
      ip_buf = (\<lambda>i. if i = 0 then CHR 0x45 else if i = 3 then CHR 0x28
                     else if i = 4 then marker else CHR 0x00),
      sock_buf = (\<lambda>i. CHR 0x02)\<rparr>"

text \<open>A freshly constructed handle (port 0, no filter, unlimited count), and the same
  handle with the capture thread running.\<close>

definition demo_handle :: DivertHandle where
  "demo_handle =
     \<lparr>port = 0, count = - 1, filter_str = [], flags = 0, packet_queue = [],
      num_queued = 0, cleaned = False, thread = None,
      events = [E_divert_create 0 0, E_divert_set_callback, E_divert_activate]\<rparr>"

definition demo_looping :: DivertHandle where
  "demo_looping = snd (handle_open demo_externals demo_handle)"

section \<open>Facts about the operations\<close>

lemma put_sentinels_eq:
  "put_sentinels n h =
     h\<lparr>packet_queue := packet_queue h @ replicate n sentinel,
       events := events h @ replicate n (E_queue_put sentinel)\<rparr>"
proof (induction n arbitrary: h)
  case 0
  show ?case by simp
next
  case (Suc n)
  have "replicate n a @ [a] = a # replicate n a" for a :: 'b
    by (simp add: replicate_append_same)
  then show ?case
    by (simp add: Suc queue_put_def log_event_def replicate_app_Cons_same)
qed

lemma close_eq:
  "close h =
     h\<lparr>packet_queue := packet_queue h @ replicate (nat (num_queued h)) sentinel,
       events := events h @ replicate (nat (num_queued h)) (E_queue_put sentinel) @
         (case thread h of None \<Rightarrow> []
          | Some t \<Rightarrow> (if isAlive t then [E_divert_loop_stop] else []) @ [E_thread_join]),
       thread := None\<rparr>"
  by (cases "thread h") (simp_all add: close_def put_sentinels_eq log_event_def Let_def)

lemma read_nonempty:
  "packet_queue h = p # q \<Longrightarrow> read h pol = (Returned p, h\<lparr>packet_queue := q\<rparr>)"
  by (simp add: read_def Let_def)

lemma read_empty:
  "packet_queue h = [] \<Longrightarrow>
   read h pol = (if pol = Block then Blocked else Raised Empty, h\<lparr>num_queued := num_queued h + 1\<rparr>)"
  by (simp add: read_def Let_def)

lemma read_n_prefix:
  "packet_queue h = ps @ rest \<Longrightarrow>
   read_n (length ps) h = (map Returned ps, h\<lparr>packet_queue := rest\<rparr>)"
proof (induction ps arbitrary: h)
  case Nil
  then show ?case by simp
next
  case (Cons p ps)
  from Cons.prems have q: "packet_queue h = p # (ps @ rest)" by simp
  have "packet_queue (h\<lparr>packet_queue := ps @ rest\<rparr>) = ps @ rest" by simp
  from Cons.IH [OF this] show ?case
    by (simp add: read_nonempty [OF q])
qed

lemma ip_callback_legal:
  assumes "0 < get_header_length x (ip_buf r)" and "0 < get_total_length x (ip_buf r)"
  shows "\<exists>p. ip_callback x h r = queue_put h p \<and> valid p \<and>
             ip_data p = PyStr (ptr_slice (ip_buf r) (get_total_length x (ip_buf r))) \<and>
             sockaddr p = PyStr (ptr_slice (sock_buf r) (int (SOCKET_ADDR_SIZE x))) \<and>
             flag p = PyInt 0 \<and>
             proc p = (if pid (proc_info r) = - 1 \<and> epid (proc_info r) = - 1
                       then PyNone else PyProc (proc_info r))"
  using assms by (auto simp add: ip_callback_def Let_def Packet_init_def)

lemma ip_callback_illegal:
  "\<not> (0 < get_header_length x (ip_buf r) \<and> 0 < get_total_length x (ip_buf r)) \<Longrightarrow>
   ip_callback x h r = h"
  by (auto simp add: ip_callback_def Let_def)

lemma deliver_legal:
  assumes "\<forall>r\<in>set rs. 0 < get_header_length x (ip_buf r) \<and> 0 < get_total_length x (ip_buf r)"
  shows "\<exists>ps. packet_queue (deliver x h rs) = packet_queue h @ ps \<and>
              num_queued (deliver x h rs) = num_queued h \<and>
              map ip_data ps =
                map (\<lambda>r. PyStr (ptr_slice (ip_buf r) (get_total_length x (ip_buf r)))) rs \<and>
              list_all valid ps"
  using assms
proof (induction rs arbitrary: h)
  case Nil
  then show ?case by (simp add: deliver_def)
next
  case (Cons r rs)
  then have leg: "0 < get_header_length x (ip_buf r)" "0 < get_total_length x (ip_buf r)"
    by simp_all
  from ip_callback_legal [OF leg, of h] obtain p where
    p: "ip_callback x h r = queue_put h p" "valid p"
       "ip_data p = PyStr (ptr_slice (ip_buf r) (get_total_length x (ip_buf r)))"
    by blast
  from Cons.prems have "\<forall>r\<in>set rs. 0 < get_header_length x (ip_buf r) \<and> 0 < get_total_length x (ip_buf r)"
    by simp
  from Cons.IH [OF this, of "queue_put h p"] obtain ps where
    ps: "packet_queue (deliver x (queue_put h p) rs) = packet_queue (queue_put h p) @ ps"
        "num_queued (deliver x (queue_put h p) rs) = num_queued (queue_put h p)"
        "map ip_data ps =
           map (\<lambda>r. PyStr (ptr_slice (ip_buf r) (get_total_length x (ip_buf r)))) rs"
        "list_all valid ps"
    by blast
  have d: "deliver x h (r # rs) = deliver x (queue_put h p) rs"
    by (simp add: deliver_def p(1))
  have q: "packet_queue (queue_put h p) = packet_queue h @ [p]"
          "num_queued (queue_put h p) = num_queued h"
    by (simp_all add: queue_put_def log_event_def)
  show ?case
    by (rule exI [of _ "p # ps"]) (simp add: d ps p q)
qed

lemma demo_raw_lengths:
  "get_header_length demo_externals (ip_buf (demo_raw m p e)) = 20"
  "get_total_length demo_externals (ip_buf (demo_raw m p e)) = 40"
  by (simp_all add: demo_externals_def demo_raw_def)

lemma failed_reads_eq:
  "packet_queue h = [] \<Longrightarrow> pol \<noteq> Block \<Longrightarrow>
   failed_reads k pol h = h\<lparr>num_queued := num_queued h + int k\<rparr>"
proof (induction k arbitrary: h)
  case 0
  show ?case by simp
next
  case (Suc k)
  let ?h1 = "h\<lparr>num_queued := num_queued h + 1\<rparr>"
  from Suc.prems have step: "snd (read h pol) = ?h1"
    by (simp add: read_empty)
  from Suc.prems have "packet_queue ?h1 = []" by simp
  from Suc.IH [OF this Suc.prems(2)] show ?case
    by (simp add: step add.assoc)
qed

lemma closed_events: "events (snd (closed h)) = events h"
  by (simp add: closed_def Let_def split: option.split)

lemma length_ptr_slice: "0 \<le> n \<Longrightarrow> int (length (ptr_slice b n)) = n"
  by (simp add: ptr_slice_def)

lemma queue_put_queue: "packet_queue (queue_put h p) = packet_queue h @ [p]"
  by (simp add: queue_put_def log_event_def)

lemma ip_callback_queue:
  "\<exists>ps. packet_queue (ip_callback x h r) = packet_queue h @ ps"
proof (cases "0 < get_header_length x (ip_buf r) \<and> 0 < get_total_length x (ip_buf r)")
  case True
  then obtain p where "ip_callback x h r = queue_put h p"
    using ip_callback_legal [of x r h] by blast
  then show ?thesis by (simp add: queue_put_queue)
next
  case False
  then show ?thesis by (simp add: ip_callback_illegal)
qed

lemma deliver_queue:
  "\<exists>ps. packet_queue (deliver x h rs) = packet_queue h @ ps"
proof (induction rs arbitrary: h)
  case Nil
  show ?case by (simp add: deliver_def)
next
  case (Cons r rs)
  obtain ps where a: "packet_queue (ip_callback x h r) = packet_queue h @ ps"
    using ip_callback_queue by blast
  obtain qs where
    b: "packet_queue (deliver x (ip_callback x h r) rs) = packet_queue (ip_callback x h r) @ qs"
    using Cons.IH by blast
  have "deliver x h (r # rs) = deliver x (ip_callback x h r) rs"
    by (simp add: deliver_def)
  with a b show ?case by simp
qed



section \<open>Ordered delivery\<close>

text \<open>
  C1. Let the capture callback deliver a sequence of \<open>N\<close> packets, each with a positive
  header length and a positive total length, to a handle whose queue is empty. Then
  \<open>N\<close> reads in a row all return; the payloads they return are the delivered payloads
  in the order of delivery, and every returned Packet is valid. The same holds when
  \<open>close\<close> is called between the delivery and the reads.
\<close>

theorem fifo_delivery:
  assumes "packet_queue h = []"
    and "\<forall>r\<in>set rs. 0 < get_header_length x (ip_buf r) \<and> 0 < get_total_length x (ip_buf r)"
  shows "map payload_of (fst (read_n (length rs) (deliver x h rs))) =
           map (\<lambda>r. Returned (PyStr (ptr_slice (ip_buf r) (get_total_length x (ip_buf r))))) rs \<and>
         list_all returned_valid (fst (read_n (length rs) (deliver x h rs))) \<and>
         fst (read_n (length rs) (close (deliver x h rs))) =
           fst (read_n (length rs) (deliver x h rs))"
proof -
  from deliver_legal [OF assms(2), of h] assms(1) obtain ps where
    q: "packet_queue (deliver x h rs) = ps"
    and pl: "map ip_data ps =
      map (\<lambda>r. PyStr (ptr_slice (ip_buf r) (get_total_length x (ip_buf r)))) rs"
    and v: "list_all valid ps"
    by auto
  from pl have len: "length rs = length ps"
    by (metis length_map)
  have "packet_queue (deliver x h rs) = ps @ []" using q by simp
  from read_n_prefix [OF this] have r1: "fst (read_n (length rs) (deliver x h rs)) = map Returned ps"
    by (simp add: len)
  have "packet_queue (close (deliver x h rs)) =
          ps @ replicate (nat (num_queued (deliver x h rs))) sentinel"
    by (simp add: close_eq q)
  from read_n_prefix [OF this]
  have r2: "fst (read_n (length rs) (close (deliver x h rs))) = map Returned ps"
    by (simp add: len)
  have "map payload_of (map Returned ps) = map Returned (map ip_data ps)"
    by (simp add: payload_of_def)
  moreover have "list_all returned_valid (map Returned ps)"
    using v by (simp add: list_all_iff returned_valid_def)
  ultimately show ?thesis
    by (simp add: r1 r2 pl)
qed

theorem fifo_delivery_witness:
  "packet_queue demo_handle = [] \<and>
   0 < get_header_length demo_externals (ip_buf (demo_raw CHR ''a'' 7 7)) \<and>
   0 < get_total_length demo_externals (ip_buf (demo_raw CHR ''a'' 7 7)) \<and>
   0 < get_header_length demo_externals (ip_buf (demo_raw CHR ''b'' (- 1) (- 1))) \<and>
   0 < get_total_length demo_externals (ip_buf (demo_raw CHR ''b'' (- 1) (- 1))) \<and>
   map payload_of
     (fst (read_n 2 (deliver demo_externals demo_handle
                       [demo_raw CHR ''a'' 7 7, demo_raw CHR ''b'' (- 1) (- 1)]))) =
     [Returned (PyStr (ptr_slice (ip_buf (demo_raw CHR ''a'' 7 7)) 40)),
      Returned (PyStr (ptr_slice (ip_buf (demo_raw CHR ''b'' (- 1) (- 1))) 40))] \<and>
   list_all returned_valid
     (fst (read_n 2 (deliver demo_externals demo_handle
                       [demo_raw CHR ''a'' 7 7, demo_raw CHR ''b'' (- 1) (- 1)])))"
proof -
  let ?rs = "[demo_raw CHR ''a'' 7 7, demo_raw CHR ''b'' (- 1) (- 1)]"
  have e: "packet_queue demo_handle = []" by (simp add: demo_handle_def)
  have l: "\<forall>r\<in>set ?rs.
             0 < get_header_length demo_externals (ip_buf r) \<and>
             0 < get_total_length demo_externals (ip_buf r)"
    by (simp add: demo_raw_lengths)
  have n: "length ?rs = 2" by simp
  note t = fifo_delivery [OF e l, unfolded n list.map demo_raw_lengths]
  have p: "(0::int) < 20" "(0::int) < 40" by simp_all
  from t e p show ?thesis
    by (simp only: demo_raw_lengths simp_thms)
qed

section \<open>Writing\<close>

text \<open>
  C2. When the \<open>closed\<close> property of a handle is true, \<open>write\<close> with any argument
  raises the error \<open>Divert handle closed.\<close> and the engine's reinject operation is not
  invoked: no event is added.
\<close>

theorem write_on_closed_rejected:
  assumes "fst (closed h)"
  shows "fst (write_packet x h packet_obj) = Raised (RuntimeError ''Divert handle closed.'') \<and>
         events (snd (write_packet x h packet_obj)) = events h"
proof -
  obtain c h1 where ch: "closed h = (c, h1)" by (cases "closed h")
  with assms have c by simp
  from ch closed_events [of h] have "events h1 = events h" by simp
  with ch \<open>c\<close> show ?thesis by (simp add: write_packet_def)
qed

theorem write_on_closed_rejected_witness:
  "fst (closed demo_handle) \<and>
   fst (write_packet demo_externals demo_handle
          (Some (Packet_init\<lparr>ip_data := PyStr ''data'', sockaddr := PyStr ''addr''\<rparr>))) =
     Raised (RuntimeError ''Divert handle closed.'') \<and>
   events (snd (write_packet demo_externals demo_handle
          (Some (Packet_init\<lparr>ip_data := PyStr ''data'', sockaddr := PyStr ''addr''\<rparr>)))) =
     events demo_handle"
proof -
  have c: "fst (closed demo_handle)"
    by (simp add: closed_def demo_handle_def eof_def)
  from write_on_closed_rejected [OF c] c show ?thesis by blast
qed




section \<open>Closing\<close>

text \<open>
  Against C3 as stated: on a handle with a live thread and one pending reader,
  \<open>close\<close> enqueues the sentinel, stops the loop and joins the thread, and nothing
  else; the engine handle is not released.
\<close>

theorem close_releases_handle_counterexample:
  "events (close (demo_looping\<lparr>num_queued := 1\<rparr>)) =
     events demo_looping @ [E_queue_put sentinel, E_divert_loop_stop, E_thread_join] \<and>
   E_divert_close \<notin> set (events (close (demo_looping\<lparr>num_queued := 1\<rparr>)))"
  by (simp add: demo_looping_def handle_open_def demo_handle_def close_def log_event_def
      queue_put_def Let_def)

text \<open>
  C3, amended. \<open>close\<close> performs, in this order: it enqueues one sentinel Packet (not
  valid) for each pending reader counted by \<open>num_queued\<close>; then, if there is a thread and it
  is alive, it asks the engine to stop its loop; then, if there is a thread, it joins
  it and forgets it. It does not release the engine handle. Destruction runs \<open>close\<close>
  and then releases the engine handle, unless the handle is already marked as cleaned.
\<close>

theorem close_sequence:
  "events (close h) =
     events h @ replicate (nat (num_queued h)) (E_queue_put sentinel) @
       (case thread h of
          None \<Rightarrow> []
        | Some t \<Rightarrow> (if isAlive t then [E_divert_loop_stop] else []) @ [E_thread_join]) \<and>
   packet_queue (close h) = packet_queue h @ replicate (nat (num_queued h)) sentinel \<and>
   \<not> valid sentinel \<and>
   thread (close h) = None \<and>
   cleaned (close h) = cleaned h \<and>
   events (snd (del x h)) = events (close h) @ (if cleaned h then [] else [E_divert_close]) \<and>
   cleaned (snd (del x h))"
proof -
  have s: "\<not> valid sentinel" by (simp add: sentinel_def Packet_init_def)
  have d: "events (snd (del x h)) = events (close h) @ (if cleaned h then [] else [E_divert_close])"
    "cleaned (snd (del x h))"
    by (simp_all add: del_def Let_def log_event_def close_eq)
  show ?thesis
    by (simp add: s d) (simp add: close_eq)
qed

theorem close_sequence_witness:
  "events (close (demo_looping\<lparr>num_queued := 2\<rparr>)) =
     events demo_looping @
       [E_queue_put sentinel, E_queue_put sentinel, E_divert_loop_stop, E_thread_join] \<and>
   events (snd (del demo_externals (demo_looping\<lparr>num_queued := 2\<rparr>))) =
     events demo_looping @
       [E_queue_put sentinel, E_queue_put sentinel, E_divert_loop_stop, E_thread_join,
        E_divert_close]"
proof -
  have t: "thread (demo_looping\<lparr>num_queued := 2\<rparr>) = Some (Thread True)"
    "cleaned (demo_looping\<lparr>num_queued := 2\<rparr>) = False"
    "num_queued (demo_looping\<lparr>num_queued := 2\<rparr>) = 2"
    "events (demo_looping\<lparr>num_queued := 2\<rparr>) = events demo_looping"
    by (simp_all add: demo_looping_def handle_open_def demo_handle_def log_event_def)
  have r: "replicate 2 e = [e, e]" for e :: event
    by (simp add: numeral_2_eq_2)
  from close_sequence [of "demo_looping\<lparr>num_queued := 2\<rparr>" demo_externals]
  show ?thesis by (simp add: t r)
qed

text \<open>
  What does hold of a second \<open>close\<close>: when the counter \<open>num_queued\<close> is zero, the state
  after two calls is the state after one, and on a handle with no thread \<open>close\<close> is the
  identity. No call of \<open>close\<close> releases the engine handle.
\<close>

lemma close_twice_counter_zero:
  assumes "num_queued h = 0"
  shows "close (close h) = close h \<and>
         (thread h = None \<longrightarrow> close h = h) \<and>
         filter (\<lambda>e. e = E_divert_close) (events (close (close h))) =
           filter (\<lambda>e. e = E_divert_close) (events h)"
proof -
  from assms have a: "close (close h) = close h"
    by (simp add: close_eq)
  from assms have b: "thread h = None \<longrightarrow> close h = h"
    by (simp add: close_eq)
  from assms have c: "filter (\<lambda>e. e = E_divert_close) (events (close h)) =
      filter (\<lambda>e. e = E_divert_close) (events h)"
    by (simp add: close_eq split: option.split)
  from a b c show ?thesis by simp
qed

text \<open>
  C4. The claim asks that \<open>close\<close> on a handle that is already closed, with no reader
  pending and no live thread, changes nothing. The code breaks it after a read that
  raised: one non-blocking read on the empty queue of an open handle raises \<open>Empty\<close> and
  leaves the counter at 1, while no reader is pending. \<open>close\<close> then puts one sentinel
  and joins the thread; a blocking read takes the sentinel and returns. Now the thread
  is gone, the queue is empty and the \<open>closed\<close> property is true, but a second \<open>close\<close>
  puts another sentinel: the queue is no longer empty and the handle no longer reads as
  closed.
\<close>

theorem close_again_after_failed_read:
  "fst (read demo_looping NonBlock) = Raised Empty \<and>
   fst (read (close (snd (read demo_looping NonBlock))) Block) = Returned sentinel \<and>
   thread (snd (read (close (snd (read demo_looping NonBlock))) Block)) = None \<and>
   packet_queue (snd (read (close (snd (read demo_looping NonBlock))) Block)) = [] \<and>
   num_queued (snd (read (close (snd (read demo_looping NonBlock))) Block)) = 1 \<and>
   fst (closed (snd (read (close (snd (read demo_looping NonBlock))) Block))) \<and>
   packet_queue (close (snd (read (close (snd (read demo_looping NonBlock))) Block))) =
     [sentinel] \<and>
   close (snd (read (close (snd (read demo_looping NonBlock))) Block)) \<noteq>
     snd (read (close (snd (read demo_looping NonBlock))) Block) \<and>
   \<not> fst (closed (close (snd (read (close (snd (read demo_looping NonBlock))) Block))))"
proof -
  have q: "packet_queue demo_looping = []" and n: "num_queued demo_looping = 0"
    and t: "thread demo_looping = Some (Thread True)"
    by (simp_all add: demo_looping_def handle_open_def demo_handle_def log_event_def)
  define h1 where "h1 = snd (read demo_looping NonBlock)"
  have r1: "read demo_looping NonBlock = (Raised Empty, demo_looping\<lparr>num_queued := 1\<rparr>)"
    by (simp add: read_empty q n)
  then have h1: "h1 = demo_looping\<lparr>num_queued := 1\<rparr>" by (simp add: h1_def)
  define h2 where "h2 = close h1"
  have h2q: "packet_queue h2 = [sentinel]" and h2t: "thread h2 = None"
    and h2n: "num_queued h2 = 1"
    by (simp_all add: h2_def h1 close_eq q)
  define h3 where "h3 = snd (read h2 Block)"
  have r3: "read h2 Block = (Returned sentinel, h2\<lparr>packet_queue := []\<rparr>)"
    by (rule read_nonempty [OF h2q])
  then have h3: "h3 = h2\<lparr>packet_queue := []\<rparr>" by (simp add: h3_def)
  have h3q: "packet_queue h3 = []" and h3t: "thread h3 = None" and h3n: "num_queued h3 = 1"
    by (simp_all add: h3 h2t h2n)
  have c3: "fst (closed h3)"
    by (simp add: closed_def eof_def h3q h3t)
  have q4: "packet_queue (close h3) = [sentinel]"
    by (simp add: close_eq h3q h3n)
  then have ne: "close h3 \<noteq> h3" using h3q by auto
  have c4: "\<not> fst (closed (close h3))"
    by (simp add: closed_def eof_def q4 Let_def split: option.split)
  from r1 r3 h3t h3q h3n c3 q4 ne c4 show ?thesis
    by (simp add: h3_def h2_def h1_def)
qed

section \<open>The capture callback\<close>

text \<open>
  C5. For a packet whose total length and header length are both positive, whatever the
  queue holds, the callback enqueues exactly one Packet, at the end of the queue. It is
  valid, and its payload is the first \<open>totalLength\<close> bytes of the engine buffer as they
  are when the callback runs, a string of exactly that length. The Packet holds these
  bytes by value: whatever the engine delivers afterwards, from whatever buffers, the
  Packet stays unchanged at its place in the queue. On a queue that held nothing else,
  a read returns it.
\<close>

theorem callback_copies_total_length:
  assumes "0 < get_total_length x (ip_buf r)" and "0 < get_header_length x (ip_buf r)"
  shows "\<exists>p. ip_callback x h r = queue_put h p \<and>
             packet_queue (ip_callback x h r) = packet_queue h @ [p] \<and>
             valid p \<and>
             ip_data p = PyStr (map (ip_buf r) [0..<nat (get_total_length x (ip_buf r))]) \<and>
             payload_length p = Some (get_total_length x (ip_buf r)) \<and>
             (\<forall>rs. packet_queue (deliver x (ip_callback x h r) rs) ! length (packet_queue h)
                     = p) \<and>
             (packet_queue h = [] \<longrightarrow> fst (read (ip_callback x h r) pol) = Returned p)"
proof -
  from ip_callback_legal [OF assms(2) assms(1), of h] obtain p where
    p: "ip_callback x h r = queue_put h p" "valid p"
       "ip_data p = PyStr (ptr_slice (ip_buf r) (get_total_length x (ip_buf r)))"
    by blast
  have q: "packet_queue (ip_callback x h r) = packet_queue h @ [p]"
    by (simp add: p(1) queue_put_queue)
  have later: "packet_queue (deliver x (ip_callback x h r) rs) ! length (packet_queue h) = p"
    for rs
  proof -
    obtain ps where
      "packet_queue (deliver x (ip_callback x h r) rs) = packet_queue (ip_callback x h r) @ ps"
      using deliver_queue by blast
    then show ?thesis by (simp add: q nth_append)
  qed
  have rd: "fst (read (ip_callback x h r) pol) = Returned p" if "packet_queue h = []"
  proof -
    from q that have "packet_queue (ip_callback x h r) = p # []" by simp
    from read_nonempty [OF this] show ?thesis by simp
  qed
  from assms(1) have len: "payload_length p = Some (get_total_length x (ip_buf r))"
    by (simp add: payload_length_def p(3) length_ptr_slice)
  have dat: "ip_data p = PyStr (map (ip_buf r) [0..<nat (get_total_length x (ip_buf r))])"
    by (simp add: p(3) ptr_slice_def)
  from p(1,2) q dat len later rd show ?thesis by blast
qed

theorem callback_copies_total_length_witness:
  "0 < get_total_length demo_externals (ip_buf (demo_raw CHR ''a'' 7 7)) \<and>
   0 < get_header_length demo_externals (ip_buf (demo_raw CHR ''a'' 7 7)) \<and>
   packet_queue demo_looping = [] \<and>
   get_total_length demo_externals (ip_buf (demo_raw CHR ''a'' 7 7)) = 40 \<and>
   get_header_length demo_externals (ip_buf (demo_raw CHR ''a'' 7 7)) = 20 \<and>
   (\<exists>p. fst (read (ip_callback demo_externals demo_looping (demo_raw CHR ''a'' 7 7)) Block) =
          Returned p \<and> valid p \<and> payload_length p = Some 40 \<and>
        packet_queue (deliver demo_externals
                        (ip_callback demo_externals demo_looping (demo_raw CHR ''a'' 7 7))
                        [demo_raw CHR ''b'' 1 1]) ! 0 = p)"
proof -
  have q: "packet_queue demo_looping = []"
    by (simp add: demo_looping_def handle_open_def demo_handle_def log_event_def)
  have t: "0 < get_total_length demo_externals (ip_buf (demo_raw CHR ''a'' 7 7))"
    and hl: "0 < get_header_length demo_externals (ip_buf (demo_raw CHR ''a'' 7 7))"
    by (simp_all add: demo_raw_lengths)
  from callback_copies_total_length [where h = demo_looping and pol = Block, OF t hl]
  obtain p where
    p: "valid p" "payload_length p = Some 40"
       "fst (read (ip_callback demo_externals demo_looping (demo_raw CHR ''a'' 7 7)) Block) =
          Returned p"
       "\<forall>rs. packet_queue (deliver demo_externals
                 (ip_callback demo_externals demo_looping (demo_raw CHR ''a'' 7 7)) rs) ! 0 = p"
    by (auto simp add: demo_raw_lengths q)
  from p(4) have "packet_queue (deliver demo_externals
                 (ip_callback demo_externals demo_looping (demo_raw CHR ''a'' 7 7))
                 [demo_raw CHR ''b'' 1 1]) ! 0 = p"
    by blast
  with p(1,2,3) q show ?thesis
    by (simp only: demo_raw_lengths) simp
qed

text \<open>
  C8. For a packet that the callback enqueues, the process information is absent exactly
  when the engine reports \<open>-1\<close> for both the pid and the epid; otherwise the Packet
  carries a copy of the engine's process information.
\<close>

theorem callback_process_info:
  assumes "0 < get_total_length x (ip_buf r)" and "0 < get_header_length x (ip_buf r)"
  shows "\<exists>p. ip_callback x h r = queue_put h p \<and>
             (proc p = PyNone \<longleftrightarrow> pid (proc_info r) = - 1 \<and> epid (proc_info r) = - 1) \<and>
             (proc p \<noteq> PyNone \<longrightarrow> proc p = PyProc (proc_info r))"
proof -
  from ip_callback_legal [OF assms(2) assms(1), of h] obtain p where
    p: "ip_callback x h r = queue_put h p"
       "proc p = (if pid (proc_info r) = - 1 \<and> epid (proc_info r) = - 1
                  then PyNone else PyProc (proc_info r))"
    by blast
  show ?thesis
    by (rule exI [of _ p]) (simp add: p)
qed

theorem callback_process_info_witness:
  "0 < get_total_length demo_externals (ip_buf (demo_raw CHR ''a'' (- 1) (- 1))) \<and>
   0 < get_header_length demo_externals (ip_buf (demo_raw CHR ''a'' (- 1) (- 1))) \<and>
   0 < get_total_length demo_externals (ip_buf (demo_raw CHR ''a'' 7 (- 1))) \<and>
   0 < get_header_length demo_externals (ip_buf (demo_raw CHR ''a'' 7 (- 1))) \<and>
   (\<exists>p. ip_callback demo_externals demo_looping (demo_raw CHR ''a'' (- 1) (- 1)) =
          queue_put demo_looping p \<and> proc p = PyNone) \<and>
   (\<exists>p. ip_callback demo_externals demo_looping (demo_raw CHR ''a'' 7 (- 1)) =
          queue_put demo_looping p \<and> proc p = PyProc \<lparr>pid = 7, epid = - 1\<rparr>)"
proof -
  have l: "0 < get_total_length demo_externals (ip_buf (demo_raw m p e))"
          "0 < get_header_length demo_externals (ip_buf (demo_raw m p e))" for m p e
    by (simp_all add: demo_raw_lengths)
  have i: "proc_info (demo_raw m p e) = \<lparr>pid = p, epid = e\<rparr>" for m p e
    by (simp add: demo_raw_def)
  from callback_process_info [OF l [of "CHR ''a''" "- 1" "- 1"], of demo_looping]
  have a: "\<exists>p. ip_callback demo_externals demo_looping (demo_raw CHR ''a'' (- 1) (- 1)) =
          queue_put demo_looping p \<and> proc p = PyNone"
    by (auto simp add: i)
  from callback_process_info [OF l [of "CHR ''a''" 7 "- 1"], of demo_looping]
  have b: "\<exists>p. ip_callback demo_externals demo_looping (demo_raw CHR ''a'' 7 (- 1)) =
          queue_put demo_looping p \<and> proc p = PyProc \<lparr>pid = 7, epid = - 1\<rparr>"
    by (auto simp add: i)
  from a b l show ?thesis by blast
qed

section \<open>Rule compilation\<close>

text \<open>
  C7. The claim asks that a rule the engine accepts yields the rule data, of
  \<open>IPFW_RULE_SIZE\<close> bytes, and that a rule it refuses yields an error with the engine's
  diagnostic text. The method does neither: the table declares five parameters for
  \<open>ipfw_compile_rule\<close> and the method calls it with four arguments, so for every rule
  text and port the call is refused before the engine runs, and the method raises that
  refusal.
\<close>

theorem compile_rule_raises_type_error:
  "ipfw_compile_rule x rule_str port0 = Inl (TypeError 5 4)"
  by (simp add: ipfw_compile_rule_def foreign_call_def argtypes_ipfw_compile_rule_def)

text \<open>
  In the concrete environment the engine would accept the rule and report a diagnostic
  for the rule \<open>bad\<close>; the method returns neither the rule data nor the diagnostic.
\<close>

lemma compile_rule_demo:
  "fst (lib_ipfw_compile_rule demo_externals 8080 ''ip from any to any'') = 0 \<and>
   ipfw_compile_rule demo_externals ''ip from any to any'' 8080 = Inl (TypeError 5 4) \<and>
   fst (lib_ipfw_compile_rule demo_externals 8080 ''bad'') = 1 \<and>
   ipfw_compile_rule demo_externals ''bad'' 8080 = Inl (TypeError 5 4)"
  by (simp add: demo_externals_def ipfw_compile_rule_def foreign_call_def
      argtypes_ipfw_compile_rule_def)

section \<open>Reads that fail\<close>

text \<open>
  C9. A non-blocking read, or a read with a timeout, on an empty queue raises \<open>Empty\<close>
  and leaves the counter of pending readers incremented. After \<open>k\<close> such reads the
  counter has grown by \<open>k\<close>, and a later \<open>close\<close> enqueues one sentinel more for each of
  them.
\<close>

theorem failed_read_leaks_pending_reader:
  assumes "packet_queue h = []" and "pol \<noteq> Block"
  shows "read h pol = (Raised Empty, h\<lparr>num_queued := num_queued h + 1\<rparr>) \<and>
         num_queued (failed_reads k pol h) = num_queued h + int k \<and>
         (0 \<le> num_queued h \<longrightarrow>
            packet_queue (close (failed_reads k pol h)) =
              replicate (nat (num_queued h) + k) sentinel)"
proof -
  from assms have a: "read h pol = (Raised Empty, h\<lparr>num_queued := num_queued h + 1\<rparr>)"
    by (simp add: read_empty)
  have f: "failed_reads k pol h = h\<lparr>num_queued := num_queued h + int k\<rparr>"
    by (rule failed_reads_eq [OF assms])
  have "0 \<le> num_queued h \<Longrightarrow> nat (num_queued h + int k) = nat (num_queued h) + k"
    by (simp add: nat_add_distrib)
  with a show ?thesis
    by (simp add: f close_eq assms(1))
qed

theorem failed_read_leaks_pending_reader_witness:
  "packet_queue demo_looping = [] \<and> NonBlock \<noteq> Block \<and>
   read demo_looping NonBlock = (Raised Empty, demo_looping\<lparr>num_queued := 1\<rparr>) \<and>
   num_queued (failed_reads 3 NonBlock demo_looping) = 3 \<and>
   packet_queue (close (failed_reads 3 NonBlock demo_looping)) =
     [sentinel, sentinel, sentinel]"
proof -
  have q: "packet_queue demo_looping = []" and n: "num_queued demo_looping = 0"
    by (simp_all add: demo_looping_def handle_open_def demo_handle_def log_event_def)
  have p: "NonBlock \<noteq> Block" by simp
  have r: "replicate 3 e = [e, e, e]" for e :: Packet
    by (simp add: numeral_3_eq_3)
  from failed_read_leaks_pending_reader [OF q p, of 3] q
  show ?thesis by (simp add: n r)
qed

section \<open>Packet item access\<close>

lemma setitem_known:
  "key \<in> set known_keys \<Longrightarrow> \<exists>p'. setitem p key v = Inr p' \<and> getitem p' key = v"
  by (auto simp: known_keys_def setitem_def getitem_def)

lemma setitem_unknown:
  "key \<notin> set known_keys \<Longrightarrow> setitem p key v = Inl (KeyError (''No suck key: '' @ key))"
  by (simp add: known_keys_def setitem_def)

lemma getitem_unknown: "key \<notin> set known_keys \<Longrightarrow> getitem p key = PyNone"
  by (simp add: known_keys_def getitem_def)

text \<open>
  C10. Item access on a Packet is asymmetric. For a key outside \<open>proc\<close>, \<open>ip_data\<close>,
  \<open>sockaddr\<close>, \<open>flag\<close>, storing raises \<open>KeyError\<close> while reading the same key returns
  \<open>None\<close> and raises nothing. For each of the four known keys storing succeeds, and
  reading the key afterwards returns the value just stored.
\<close>

theorem packet_item_access_asymmetric:
  "(key \<notin> set known_keys \<longrightarrow>
      setitem p key v = Inl (KeyError (''No suck key: '' @ key)) \<and> getitem p key = PyNone) \<and>
   (key \<in> set known_keys \<longrightarrow>
      (\<exists>p'. setitem p key v = Inr p' \<and> getitem p' key = v))"
  using setitem_known setitem_unknown getitem_unknown by blast

theorem packet_item_access_asymmetric_witness:
  "''ttl'' \<notin> set known_keys \<and>
   setitem Packet_init ''ttl'' (PyInt 64) = Inl (KeyError ''No suck key: ttl'') \<and>
   getitem Packet_init ''ttl'' = PyNone \<and>
   ''flag'' \<in> set known_keys \<and>
   (\<exists>p'. setitem Packet_init ''flag'' (PyInt 7) = Inr p' \<and> getitem p' ''flag'' = PyInt 7)"
proof -
  have a: "''ttl'' \<notin> set known_keys" by (simp add: known_keys_def)
  have b: "''flag'' \<in> set known_keys" by (simp add: known_keys_def)
  from a b
    packet_item_access_asymmetric [of "''ttl''" Packet_init "PyInt 64"]
    packet_item_access_asymmetric [of "''flag''" Packet_init "PyInt 7"]
  show ?thesis by simp
qed

end
